theory Spec2Isabelle
  imports Main
begin

section \<open>Strings of the host language\<close>

text \<open>
  The program is TypeScript; its strings are sequences of code units. A \<^typ>\<open>string\<close>
  here is such a sequence with every code unit below 256, one \<^typ>\<open>char\<close> per code
  unit. In that range the white space of \<^verbatim>\<open>\s\<close> and of \<^verbatim>\<open>trim\<close> is
  TAB, LF, VT, FF, CR, SP and NBSP; the line terminators that \<^verbatim>\<open>.\<close> refuses are
  LF and CR; the word characters of \<^verbatim>\<open>\w\<close> are the letters, the digits and the
  underscore.
\<close>

definition isSpace :: "char \<Rightarrow> bool" where
  "isSpace c = (c \<in> set [CHR 0x09, CHR 0x0A, CHR 0x0B, CHR 0x0C, CHR 0x0D, CHR 0x20, CHR 0xA0])"

definition isLineTerminator :: "char \<Rightarrow> bool" where
  "isLineTerminator c = (c = CHR 0x0A \<or> c = CHR 0x0D)"

definition isLetter :: "char \<Rightarrow> bool" where
  "isLetter c = (let n = (of_char c :: nat) in (65 \<le> n \<and> n \<le> 90) \<or> (97 \<le> n \<and> n \<le> 122))"

definition isDigit :: "char \<Rightarrow> bool" where
  "isDigit c = (let n = (of_char c :: nat) in 48 \<le> n \<and> n \<le> 57)"

definition isWordChar :: "char \<Rightarrow> bool" where
  "isWordChar c = (isLetter c \<or> isDigit c \<or> c = CHR ''_'')"

text \<open>\<^verbatim>\<open>s.trim()\<close>\<close>

definition trim :: "string \<Rightarrow> string" where
  "trim s = rev (dropWhile isSpace (rev (dropWhile isSpace s)))"

text \<open>\<^verbatim>\<open>s.startsWith(p)\<close>, \<^verbatim>\<open>s.endsWith(p)\<close>, \<^verbatim>\<open>s.includes(p)\<close> for a one-character \<open>p\<close>\<close>

definition startsWith :: "string \<Rightarrow> string \<Rightarrow> bool" where
  "startsWith s p = (take (length p) s = p)"

definition endsWith :: "string \<Rightarrow> string \<Rightarrow> bool" where
  "endsWith s p = (length p \<le> length s \<and> drop (length s - length p) s = p)"

text \<open>\<^verbatim>\<open>xs.join(sep)\<close> on an array of strings\<close>

fun join :: "string \<Rightarrow> string list \<Rightarrow> string" where
  "join sep [] = []"
| "join sep [x] = x"
| "join sep (x # y # ys) = x @ sep @ join sep (y # ys)"

text \<open>
  \<^verbatim>\<open>s.split(sep)\<close>: the pieces between the successive occurrences of \<open>sep\<close>, found
  from left to right without overlap; an empty separator splits into code units.
  \<open>splitFrom sep cur s\<close> has read \<open>cur\<close> of the current piece.
\<close>

fun splitFrom :: "string \<Rightarrow> string \<Rightarrow> string \<Rightarrow> string list" where
  "splitFrom sep cur [] = [cur]"
| "splitFrom sep cur (c # cs) =
     (if sep \<noteq> [] \<and> startsWith (c # cs) sep
      then cur # splitFrom sep [] (drop (length sep) (c # cs))
      else splitFrom sep (cur @ [c]) cs)"

definition split :: "string \<Rightarrow> string \<Rightarrow> string list" where
  "split sep s = (if sep = [] then map (\<lambda>c. [c]) s else splitFrom sep [] s)"

text \<open>
  The replacement text of \<^verbatim>\<open>replace\<close> and \<^verbatim>\<open>replaceAll\<close> is a template:
  \<^verbatim>\<open>$$\<close> stands for a dollar sign, \<^verbatim>\<open>$&\<close> for the matched text, \<^verbatim>\<open>$`\<close> for
  the text before the match and \<^verbatim>\<open>$'\<close> for the text after it. The patterns of this
  program capture nothing, so a dollar sign before a digit or before \<^verbatim>\<open><\<close> stands
  for itself.
\<close>

fun getSubstitution :: "string \<Rightarrow> string \<Rightarrow> string \<Rightarrow> string \<Rightarrow> string" where
  "getSubstitution matched pre post [] = []"
| "getSubstitution matched pre post [c] = [c]"
| "getSubstitution matched pre post (c # d # r) =
     (if c = CHR ''$'' then
        (if d = CHR ''$'' then CHR ''$'' # getSubstitution matched pre post r
         else if d = CHR ''&'' then matched @ getSubstitution matched pre post r
         else if d = CHR 0x60 then pre @ getSubstitution matched pre post r
         else if d = CHR 0x27 then post @ getSubstitution matched pre post r
         else c # getSubstitution matched pre post (d # r))
      else c # getSubstitution matched pre post (d # r))"

text \<open>
  \<^verbatim>\<open>s.replaceAll(pat, repl)\<close> for a string \<open>pat\<close>, which is also
  \<^verbatim>\<open>s.replace(/pat/g, repl)\<close> when \<open>pat\<close> has no special character of regular
  expressions. \<open>replaceFrom pat repl pre rest\<close> has passed \<open>pre\<close>.
\<close>

fun replaceFrom :: "string \<Rightarrow> string \<Rightarrow> string \<Rightarrow> string \<Rightarrow> string" where
  "replaceFrom pat repl pre [] =
     (if pat = [] then getSubstitution [] pre [] repl else [])"
| "replaceFrom pat repl pre (c # cs) =
     (if pat = [] then
        getSubstitution [] pre (c # cs) repl @ c # replaceFrom pat repl (pre @ [c]) cs
      else if startsWith (c # cs) pat then
        getSubstitution pat pre (drop (length pat) (c # cs)) repl
          @ replaceFrom pat repl (pre @ pat) (drop (length pat) (c # cs))
      else c # replaceFrom pat repl (pre @ [c]) cs)"

definition replaceAll :: "string \<Rightarrow> string \<Rightarrow> string \<Rightarrow> string" where
  "replaceAll s pat repl = replaceFrom pat repl [] s"

section \<open>Helpers\<close>

text \<open>\<^verbatim>\<open>arrayDiallel\<close>: two nested loops that push each pair onto the result.\<close>

definition arrayDiallel :: "'a list \<Rightarrow> 'b list \<Rightarrow> ('a \<times> 'b) list" where
  "arrayDiallel ar br = foldl (\<lambda>res a. foldl (\<lambda>res b. res @ [(a, b)]) res br) [] ar"

text \<open>\<^verbatim>\<open>items.indexOf(it)\<close> for an \<open>it\<close> that occurs in \<open>items\<close>, and \<^verbatim>\<open>uniqueArrayItems\<close>.\<close>

fun indexOf :: "'a list \<Rightarrow> 'a \<Rightarrow> nat" where
  "indexOf [] y = 0"
| "indexOf (x # xs) y = (if x = y then 0 else Suc (indexOf xs y))"

definition uniqueArrayItems :: "'a list \<Rightarrow> 'a list" where
  "uniqueArrayItems items =
     map fst (filter (\<lambda>(it, index). indexOf items it = index) (zip items [0..<length items]))"

section \<open>Selector composition\<close>

definition isSelectorStart :: "char \<Rightarrow> bool" where
  "isSelectorStart c = (isLetter c \<or> c \<in> set [CHR ''.'', CHR ''#'', CHR ''*'', CHR ''['', CHR '':''])"

definition concatPathSegment :: "string \<Rightarrow> string \<Rightarrow> string" where
  "concatPathSegment path seg =
     (if CHR ''&'' \<in> set seg then trim (replaceAll seg ''&'' path)
      else if (path \<noteq> [] \<and> isWordChar (last path)) \<and> (seg \<noteq> [] \<and> isSelectorStart (hd seg))
      then path @ '' '' @ seg
      else path @ seg)"

definition concatPathSegmentEx :: "string \<Rightarrow> string \<Rightarrow> string" where
  "concatPathSegmentEx srcPath inputSeg =
     (let srcPaths = split '','' srcPath;
          inputSegs = split '','' inputSeg
      in join '','' (map (\<lambda>z. concatPathSegment (fst z) (snd z)) (arrayDiallel srcPaths inputSegs)))"

text \<open>
  \<^verbatim>\<open>combineSelectorPaths\<close>: of an empty array the result is \<^verbatim>\<open>selectorPaths[0]\<close>,
  which is \<^verbatim>\<open>undefined\<close>: \<open>None\<close> here.
\<close>

definition combineSelectorPaths :: "string list \<Rightarrow> string option" where
  "combineSelectorPaths selectorPaths =
     (if length selectorPaths \<ge> 2
      then Some (foldl concatPathSegmentEx (hd selectorPaths) (tl selectorPaths))
      else (case selectorPaths of [] \<Rightarrow> None | p # _ \<Rightarrow> Some p))"

section \<open>Merging conditional group rules\<close>

text \<open>\<^verbatim>\<open>mq.replace(/^(@media|@container)\s/, "")\<close>\<close>

definition stripGroupKeyword :: "string \<Rightarrow> string" where
  "stripGroupKeyword mq =
     (if startsWith mq ''@media'' \<and> 6 < length mq \<and> isSpace (mq ! 6) then drop 7 mq
      else if startsWith mq ''@container'' \<and> 10 < length mq \<and> isSpace (mq ! 10) then drop 11 mq
      else mq)"

definition combineMediaQueries :: "string list \<Rightarrow> string" where
  "combineMediaQueries mediaQuerySpecs =
     (if length mediaQuerySpecs = 0 then []
      else
        let srcParts = concat (map (\<lambda>mq. map trim (split ''and'' (stripGroupKeyword mq))) mediaQuerySpecs);
            parts = uniqueArrayItems srcParts;
            head = hd (split '' '' (hd mediaQuerySpecs))
        in head @ '' '' @ join '' and '' parts)"

section \<open>Objects used as dictionaries\<close>

text \<open>
  \<^verbatim>\<open>cssSlots\<close> and the result of \<^verbatim>\<open>groupArrayItems\<close> are object literals
  \<^verbatim>\<open>{}\<close>. Such an object is modelled by its own properties in the order of their
  creation. Reading \<^verbatim>\<open>obj[key]\<close> also finds what the object inherits from
  \<^verbatim>\<open>Object.prototype\<close>: an inherited member is a function or an object, so it is
  truthy and has no \<^verbatim>\<open>cssLines\<close> and no \<^verbatim>\<open>push\<close>. \<open>objectPrototypeKeys\<close> lists
  the inherited names of a browser; a runtime without the \<^verbatim>\<open>__proto__\<close> accessor
  inherits the others, and no property below rests on that name. \<^verbatim>\<open>Object.values\<close>
  and \<^verbatim>\<open>for ... in\<close> visit the own properties whose key is an array index first, in
  ascending order, then the others in the order of their creation.
\<close>

type_synonym 'v jsobject = "(string \<times> 'v) list"

datatype 'v property = Own 'v | Inherited | Absent

datatype error = TypeError

definition objectPrototypeKeys :: "string list" where
  "objectPrototypeKeys =
     [''constructor'', ''__defineGetter__'', ''__defineSetter__'', ''hasOwnProperty'',
      ''__lookupGetter__'', ''__lookupSetter__'', ''isPrototypeOf'', ''propertyIsEnumerable'',
      ''toString'', ''valueOf'', ''__proto__'', ''toLocaleString'']"

definition getProperty :: "'v jsobject \<Rightarrow> string \<Rightarrow> 'v property" where
  "getProperty obj key =
     (case map_of obj key of
        Some v \<Rightarrow> Own v
      | None \<Rightarrow> if key \<in> set objectPrototypeKeys then Inherited else Absent)"

definition setOwnProperty :: "'v jsobject \<Rightarrow> string \<Rightarrow> 'v \<Rightarrow> 'v jsobject" where
  "setOwnProperty obj key v =
     (if key \<in> fst ` set obj then map (\<lambda>(k, w). if k = key then (k, v) else (k, w)) obj
      else obj @ [(key, v)])"

definition decimalValue :: "string \<Rightarrow> nat" where
  "decimalValue key = foldl (\<lambda>n c. 10 * n + (of_char c - 48)) 0 key"

definition isArrayIndex :: "string \<Rightarrow> bool" where
  "isArrayIndex key =
     (key \<noteq> [] \<and> list_all isDigit key \<and> (key = ''0'' \<or> hd key \<noteq> CHR ''0'')
      \<and> decimalValue key < 4294967295)"

definition objectEntries :: "'v jsobject \<Rightarrow> (string \<times> 'v) list" where
  "objectEntries obj =
     sort_key (\<lambda>(k, v). decimalValue k) (filter (\<lambda>(k, v). isArrayIndex k) obj)
       @ filter (\<lambda>(k, v). \<not> isArrayIndex k) obj"

definition objectValues :: "'v jsobject \<Rightarrow> 'v list" where
  "objectValues obj = map snd (objectEntries obj)"

text \<open>\<^verbatim>\<open>groupArrayItems\<close>: \<open>groupInto keyFn items res\<close> is its loop from the object \<open>res\<close>.\<close>

fun groupInto :: "('a \<Rightarrow> string) \<Rightarrow> 'a list \<Rightarrow> 'a list jsobject \<Rightarrow> error + 'a list jsobject" where
  "groupInto keyFn [] res = Inr res"
| "groupInto keyFn (item # items) res =
     (let key = keyFn item in
      case getProperty res key of
        Absent \<Rightarrow> groupInto keyFn items (setOwnProperty res key [item])
      | Own items0 \<Rightarrow> groupInto keyFn items (setOwnProperty res key (items0 @ [item]))
      | Inherited \<Rightarrow> Inl TypeError)"

definition groupArrayItems :: "'a list \<Rightarrow> ('a \<Rightarrow> string) \<Rightarrow> error + 'a list jsobject" where
  "groupArrayItems items keyFn = groupInto keyFn items []"

section \<open>Normalized statement lines\<close>

text \<open>
  \<^verbatim>\<open>.replace(/\/\*.*?\*\//g, "")\<close>. \<open>commentEnd s\<close> reads \<open>s\<close> after an opening
  \<^verbatim>\<open>/*\<close>: it is the text after the first \<^verbatim>\<open>*/\<close>, when no line terminator comes
  before it.
\<close>

fun commentEnd :: "string \<Rightarrow> string option" where
  "commentEnd [] = None"
| "commentEnd [c] = None"
| "commentEnd (c # d # r) =
     (if c = CHR ''*'' \<and> d = CHR ''/'' then Some r
      else if isLineTerminator c then None
      else commentEnd (d # r))"

lemma commentEnd_length: "commentEnd s = Some r \<Longrightarrow> length r < length s"
  by (induction s rule: commentEnd.induct) (auto split: if_splits)

function removeBlockComments :: "string \<Rightarrow> string" where
  "removeBlockComments [] = []"
| "removeBlockComments (c # cs) =
     (case (if c = CHR ''/'' \<and> startsWith cs ''*'' then commentEnd (tl cs) else None) of
        Some r \<Rightarrow> removeBlockComments r
      | None \<Rightarrow> c # removeBlockComments cs)"
  by pat_completeness auto
termination
proof (relation "measure length")
  fix c :: char and cs r :: string
  assume "(if c = CHR ''/'' \<and> startsWith cs ''*'' then commentEnd (tl cs) else None) = Some r"
  then have "commentEnd (tl cs) = Some r" by (simp split: if_splits)
  then have "length r < length (tl cs)" by (rule commentEnd_length)
  then show "(r, c # cs) \<in> measure length" by simp
qed simp_all

text \<open>
  \<^verbatim>\<open>.replace(/\/\/.*\r?\n/g, "")\<close>. \<open>lineCommentEnd s\<close> reads \<open>s\<close> after an opening
  \<^verbatim>\<open>//\<close>: the rest of the line must end in LF or in CR LF.
\<close>

definition lineCommentEnd :: "string \<Rightarrow> string option" where
  "lineCommentEnd s =
     (let r = dropWhile (\<lambda>c. \<not> isLineTerminator c) s in
      if startsWith r [CHR 0x0A] then Some (drop 1 r)
      else if startsWith r [CHR 0x0D, CHR 0x0A] then Some (drop 2 r)
      else None)"

lemma lineCommentEnd_length: "lineCommentEnd s = Some r \<Longrightarrow> length r \<le> length s"
proof -
  have "length (dropWhile (\<lambda>c. \<not> isLineTerminator c) s) \<le> length s"
    by (rule length_dropWhile_le)
  moreover assume "lineCommentEnd s = Some r"
  ultimately show ?thesis
    by (auto simp: lineCommentEnd_def Let_def split: if_splits)
qed

function removeLineComments :: "string \<Rightarrow> string" where
  "removeLineComments [] = []"
| "removeLineComments (c # cs) =
     (case (if c = CHR ''/'' \<and> startsWith cs ''/'' then lineCommentEnd (tl cs) else None) of
        Some r \<Rightarrow> removeLineComments r
      | None \<Rightarrow> c # removeLineComments cs)"
  by pat_completeness auto
termination
proof (relation "measure length")
  fix c :: char and cs r :: string
  assume "(if c = CHR ''/'' \<and> startsWith cs ''/'' then lineCommentEnd (tl cs) else None) = Some r"
  then have "lineCommentEnd (tl cs) = Some r" by (simp split: if_splits)
  then have "length r \<le> length (tl cs)" by (rule lineCommentEnd_length)
  then show "(r, c # cs) \<in> measure length" by simp
qed simp_all

text \<open>
  \<^verbatim>\<open>.replace(/\s*([:{;~,])\s*/g, (_, p1) => p1)\<close>: a run of white space, one of the
  five characters and another run of white space become that character.
\<close>

definition isPunctuation :: "char \<Rightarrow> bool" where
  "isPunctuation c = (c \<in> set [CHR '':'', CHR ''{'', CHR '';'', CHR ''~'', CHR '',''])"

function collapseSpaces :: "string \<Rightarrow> string" where
  "collapseSpaces [] = []"
| "collapseSpaces (c # cs) =
     (case dropWhile isSpace (c # cs) of
        [] \<Rightarrow> c # collapseSpaces cs
      | p # r \<Rightarrow>
          if isPunctuation p then p # collapseSpaces (dropWhile isSpace r)
          else c # collapseSpaces cs)"
  by pat_completeness auto
termination
proof (relation "measure length")
  fix c p :: char and cs r :: string
  assume "dropWhile isSpace (c # cs) = p # r"
  then have "length (p # r) \<le> length (c # cs)"
    by (metis length_dropWhile_le)
  moreover have "length (dropWhile isSpace r) \<le> length r"
    by (rule length_dropWhile_le)
  ultimately show "(dropWhile isSpace r, c # cs) \<in> measure length" by simp
qed simp_all

text \<open>\<^verbatim>\<open>.replace(/&\s+\./g, "&.")\<close>\<close>

function attachParentClass :: "string \<Rightarrow> string" where
  "attachParentClass [] = []"
| "attachParentClass (c # cs) =
     (if c = CHR ''&'' \<and> cs \<noteq> [] \<and> isSpace (hd cs) \<and> startsWith (dropWhile isSpace cs) ''.''
      then CHR ''&'' # CHR ''.'' # attachParentClass (drop 1 (dropWhile isSpace cs))
      else c # attachParentClass cs)"
  by pat_completeness auto
termination
proof (relation "measure length")
  fix c :: char and cs :: string
  have "length (dropWhile isSpace cs) \<le> length cs"
    by (rule length_dropWhile_le)
  then show "(drop 1 (dropWhile isSpace cs), c # cs) \<in> measure length" by simp
qed simp_all

text \<open>\<^verbatim>\<open>.replace(/\r?\n/g, "")\<close>\<close>

fun removeNewlines :: "string \<Rightarrow> string" where
  "removeNewlines [] = []"
| "removeNewlines [c] = (if c = CHR 0x0A then [] else [c])"
| "removeNewlines (c # d # r) =
     (if c = CHR 0x0A then removeNewlines (d # r)
      else if c = CHR 0x0D \<and> d = CHR 0x0A then removeNewlines r
      else c # removeNewlines (d # r))"

text \<open>\<^verbatim>\<open>.replace(/[;{}]/g, (m) => `${m}\n`)\<close>\<close>

definition breakStatements :: "string \<Rightarrow> string" where
  "breakStatements s =
     concat (map (\<lambda>c. if c \<in> set [CHR '';'', CHR ''{'', CHR ''}''] then [c, CHR 0x0A] else [c]) s)"

definition transformCssBodyTextToNormalizedLines :: "string \<Rightarrow> string list" where
  "transformCssBodyTextToNormalizedLines cssBodyText =
     filter (\<lambda>a. a \<noteq> [])
       (map trim
          (split [CHR 0x0A]
             (breakStatements
                (removeNewlines
                   (attachParentClass
                      (collapseSpaces
                         (removeLineComments
                            (removeBlockComments cssBodyText))))))))"

section \<open>Rule slots\<close>

text \<open>
  A \<^verbatim>\<open>CssSlot\<close>. Its \<^verbatim>\<open>selectorPath\<close> is \<^verbatim>\<open>undefined\<close> when it was composed
  from no selector: \<open>None\<close> here, which a template literal prints as the text
  \<^verbatim>\<open>undefined\<close>.
\<close>

record CssSlot =
  selectorPath :: "string option"
  groupRuleSpec :: string
  cssLines :: "string list"

definition pathText :: "string option \<Rightarrow> string" where
  "pathText p = (case p of None \<Rightarrow> ''undefined'' | Some t \<Rightarrow> t)"

text \<open>\<^verbatim>\<open>xs.findIndex(p)\<close>, with \<open>None\<close> for \<^verbatim>\<open>-1\<close>\<close>

fun findIndex :: "('a \<Rightarrow> bool) \<Rightarrow> 'a list \<Rightarrow> nat option" where
  "findIndex p [] = None"
| "findIndex p (x # xs) = (if p x then Some 0 else map_option Suc (findIndex p xs))"

text \<open>\<^verbatim>\<open>it.match(/^(@media|@container)/)\<close>\<close>

definition isConditionalGroup :: "string \<Rightarrow> bool" where
  "isConditionalGroup it = (startsWith it ''@media'' \<or> startsWith it ''@container'')"

text \<open>
  The first half of \<^verbatim>\<open>prepareCssSlot\<close>: the \<^verbatim>\<open>selectorPath\<close> and the
  \<^verbatim>\<open>groupRuleSpec\<close> of a stack of narrowers.
\<close>

definition resolveNarrowers :: "string list \<Rightarrow> string option \<times> string" where
  "resolveNarrowers narrowers =
     (case findIndex (\<lambda>it. startsWith it ''@keyframes'') narrowers of
        Some pathPartsKeyframeIndex \<Rightarrow>
          (combineSelectorPaths (drop (pathPartsKeyframeIndex + 1) narrowers),
           narrowers ! pathPartsKeyframeIndex)
      | None \<Rightarrow>
          (combineSelectorPaths (filter (\<lambda>it. \<not> isConditionalGroup it) narrowers),
           combineMediaQueries (filter isConditionalGroup narrowers)))"

text \<open>\<^verbatim>\<open>prepareCssSlot\<close> returns the key; the model returns the object too.\<close>

definition prepareCssSlot :: "string list \<Rightarrow> CssSlot jsobject \<Rightarrow> string \<times> CssSlot jsobject" where
  "prepareCssSlot narrowers cssSlots =
     (let (path, spec) = resolveNarrowers narrowers;
          slotKey = spec @ pathText path
      in (slotKey,
          case getProperty cssSlots slotKey of
            Absent \<Rightarrow>
              setOwnProperty cssSlots slotKey
                \<lparr>selectorPath = path, groupRuleSpec = spec, cssLines = []\<rparr>
          | _ \<Rightarrow> cssSlots))"

text \<open>\<^verbatim>\<open>stringifyCssSlots\<close>; destructuring \<^verbatim>\<open>slots[0]\<close> of an empty array throws.\<close>

definition stringifyCssSlots :: "CssSlot list \<Rightarrow> error + string" where
  "stringifyCssSlots slots =
     (case slots of
        [] \<Rightarrow> Inl TypeError
      | first # _ \<Rightarrow>
          let cssContentLines =
                map (\<lambda>slot. pathText (selectorPath slot) @ ''{'' @ join '' '' (cssLines slot) @ ''}'') slots
          in if groupRuleSpec first \<noteq> []
             then Inr (groupRuleSpec first @ ''{'' @ [CHR 0x0A]
                        @ join [CHR 0x0A] (map (\<lambda>line. ''  '' @ line) cssContentLines)
                        @ [CHR 0x0A] @ ''}'')
             else Inr (join [CHR 0x0A] cssContentLines))"

text \<open>\<^verbatim>\<open>spec.match(/^@keyframes ([\w-]+)/)?.[1]\<close>\<close>

definition keyframeNameOf :: "string \<Rightarrow> string option" where
  "keyframeNameOf spec =
     (if startsWith spec ''@keyframes ''
      then (let name = takeWhile (\<lambda>c. isWordChar c \<or> c = CHR ''-'') (drop 11 spec)
            in if name = [] then None else Some name)
      else None)"

definition collectKeyframeNames :: "CssSlot list \<Rightarrow> string list" where
  "collectKeyframeNames slots =
     uniqueArrayItems
       (map the
          (filter (\<lambda>it. it \<noteq> None \<and> it \<noteq> Some [])
             (map (\<lambda>slot. keyframeNameOf (groupRuleSpec slot))
                (filter (\<lambda>slot. startsWith (groupRuleSpec slot) ''@keyframes'') slots))))"

section \<open>The scan\<close>

record ScanState =
  narrowers :: "string list"
  cssSlots :: "CssSlot jsobject"
  slotKey :: string

text \<open>
  One turn of the loop over the lines. Pushing a line onto
  \<^verbatim>\<open>cssSlots[slotKey].cssLines\<close> throws when \<^verbatim>\<open>cssSlots[slotKey]\<close> is a member
  inherited from the prototype.
\<close>

definition scanLine :: "string \<Rightarrow> ScanState \<Rightarrow> error + ScanState" where
  "scanLine line st =
     (if endsWith line ''{'' then
        let selector = take (length line - 1) line;
            stack = narrowers st @ [selector];
            (key, slots) = prepareCssSlot stack (cssSlots st)
        in Inr \<lparr>narrowers = stack, cssSlots = slots, slotKey = key\<rparr>
      else if endsWith line ''}'' then
        let stack = butlast (narrowers st);
            (key, slots) = prepareCssSlot stack (cssSlots st)
        in Inr \<lparr>narrowers = stack, cssSlots = slots, slotKey = key\<rparr>
      else
        (case getProperty (cssSlots st) (slotKey st) of
           Own slot \<Rightarrow>
             Inr (st\<lparr>cssSlots :=
                        setOwnProperty (cssSlots st) (slotKey st)
                          (slot\<lparr>cssLines := cssLines slot @ [line]\<rparr>)\<rparr>)
         | _ \<Rightarrow> Inl TypeError))"

fun scanLines :: "string list \<Rightarrow> ScanState \<Rightarrow> error + ScanState" where
  "scanLines [] st = Inr st"
| "scanLines (line # rest) st =
     (case scanLine line st of Inl e \<Rightarrow> Inl e | Inr st' \<Rightarrow> scanLines rest st')"

text \<open>The loop that deletes the slots without a line.\<close>

definition pruneSlots :: "CssSlot jsobject \<Rightarrow> CssSlot jsobject" where
  "pruneSlots slots = filter (\<lambda>(key, slot). length (cssLines slot) \<noteq> 0) slots"

fun mapResult :: "('a \<Rightarrow> error + 'b) \<Rightarrow> 'a list \<Rightarrow> error + 'b list" where
  "mapResult f [] = Inr []"
| "mapResult f (x # xs) =
     (case f x of
        Inl e \<Rightarrow> Inl e
      | Inr y \<Rightarrow> (case mapResult f xs of Inl e \<Rightarrow> Inl e | Inr ys \<Rightarrow> Inr (y # ys)))"

text \<open>The end of \<^verbatim>\<open>extractNestedCss\<close>, from the pruned slots on.\<close>

definition renderSlots :: "string \<Rightarrow> CssSlot jsobject \<Rightarrow> error + string" where
  "renderSlots topSelector slots =
     (let listSlots = objectValues slots in
      case groupArrayItems listSlots groupRuleSpec of
        Inl e \<Rightarrow> Inl e
      | Inr slotsGroupedByConditionalGroupRule \<Rightarrow>
          (case mapResult stringifyCssSlots (objectValues slotsGroupedByConditionalGroupRule) of
             Inl e \<Rightarrow> Inl e
           | Inr texts \<Rightarrow>
               let cssText = join [CHR 0x0A] texts;
                   keyframeNames = collectKeyframeNames listSlots;
                   topClassName = drop 1 topSelector
               in Inr (foldl (\<lambda>cssText keyframeName.
                                replaceAll cssText keyframeName (topClassName @ ''_'' @ keyframeName))
                         cssText keyframeNames)))"

definition extractNestedCss :: "string \<Rightarrow> string \<Rightarrow> error + string" where
  "extractNestedCss cssBodyText topSelector =
     (let srcLines = transformCssBodyTextToNormalizedLines cssBodyText;
          (key, slots) = prepareCssSlot [topSelector] []
      in case scanLines srcLines \<lparr>narrowers = [topSelector], cssSlots = slots, slotKey = key\<rparr> of
           Inl e \<Rightarrow> Inl e
         | Inr st \<Rightarrow> renderSlots topSelector (pruneSlots (cssSlots st)))"

section \<open>Template interpolation\<close>










section \<open>Reference definitions\<close>

text \<open>
  The definitions of this section are not translations of the program: they state what
  the properties below compare the program with.
\<close>

text \<open>The elements of a list in the order of their first occurrence, \<open>seen\<close> left out.\<close>

fun firstOccurrences :: "'a list \<Rightarrow> 'a list \<Rightarrow> 'a list" where
  "firstOccurrences seen [] = []"
| "firstOccurrences seen (x # xs) =
     (if x \<in> set seen then firstOccurrences seen xs else x # firstOccurrences (x # seen) xs)"

text \<open>
  A conditional group rule as a pair of its at-rule keyword and its condition text; its
  spec is the keyword, one space and the condition text.
\<close>

definition isGroupKeyword :: "string \<Rightarrow> bool" where
  "isGroupKeyword kw = (kw = ''@media'' \<or> kw = ''@container'')"

definition groupSpec :: "string \<times> string \<Rightarrow> string" where
  "groupSpec p = fst p @ '' '' @ snd p"




section \<open>Cartesian expansion of selector lists\<close>







section \<open>The parent reference\<close>

lemma getSubstitution_plain:
  "CHR ''$'' \<notin> set repl \<Longrightarrow> getSubstitution matched pre post repl = repl"
  by (induction matched pre post repl rule: getSubstitution.induct) auto

lemma replaceFrom_ampersand:
  "CHR ''$'' \<notin> set path \<Longrightarrow>
   replaceFrom ''&'' path pre seg = concat (map (\<lambda>c. if c = CHR ''&'' then path else [c]) seg)"
  by (induction seg arbitrary: pre) (simp_all add: startsWith_def getSubstitution_plain)

lemma concatPathSegment_plain:
  "CHR ''&'' \<in> set seg \<Longrightarrow> CHR ''$'' \<notin> set path \<Longrightarrow>
   concatPathSegment path seg = trim (concat (map (\<lambda>c. if c = CHR ''&'' then path else [c]) seg))"
  by (simp add: concatPathSegment_def replaceAll_def replaceFrom_ampersand)

lemma concatPathSegment_hover:
  "concatPathSegment ''.btn'' ''&:hover'' = ''.btn:hover''
   \<and> extractNestedCss ''.btn{ &:hover{color:blue;} }'' ''.s'' = Inr ''.s .btn:hover{color:blue;}''"
  by code_simp

text \<open>
  C2. The parent path is handed to \<^verbatim>\<open>replace\<close> as the replacement text, where a
  dollar sign starts a pattern. Under the path \<^verbatim>\<open>.s [data-p='$']\<close> the segment
  \<^verbatim>\<open>&:hover\<close> does not become \<^verbatim>\<open>.s [data-p='$']:hover\<close>: the \<^verbatim>\<open>$'\<close> of the
  path is replaced by the text after the \<^verbatim>\<open>&\<close>.
\<close>

theorem concatPathSegment_dollar_pattern:
  "concatPathSegment (''.s [data-p='' @ [CHR 0x27] @ ''$'' @ [CHR 0x27] @ '']'') ''&:hover''
     = ''.s [data-p='' @ [CHR 0x27] @ '':hover]:hover''
   \<and> extractNestedCss (''[data-p='' @ [CHR 0x27] @ ''$'' @ [CHR 0x27] @ '']{&:hover{color:red;}}'') ''.s''
     = Inr (''.s [data-p='' @ [CHR 0x27] @ '':hover]:hover{color:red;}'')"
  by code_simp

section \<open>Keyframe names\<close>

lemma keyframe_rename_example:
  "extractNestedCss ''animation-name: spin; @keyframes spin{from{opacity:0;} to{opacity:1;}}'' ''.s''
     = Inr (''.s{animation-name:s_spin;}'' @ [CHR 0x0A] @ ''@keyframes s_spin{'' @ [CHR 0x0A]
            @ ''  from{opacity:0;}'' @ [CHR 0x0A] @ ''  to{opacity:1;}'' @ [CHR 0x0A] @ ''}'')"
  by code_simp

text \<open>
  C3. The names are replaced one after the other in the whole text. With the keyframes
  \<^verbatim>\<open>fade\<close> and \<^verbatim>\<open>fade-in\<close> under \<^verbatim>\<open>.s\<close>, the first pass turns \<^verbatim>\<open>fade-in\<close>
  into \<^verbatim>\<open>s_fade-in\<close> and the second pass turns that into \<^verbatim>\<open>s_s_fade-in\<close>. With a
  keyframe called \<^verbatim>\<open>frame\<close>, the keyword \<^verbatim>\<open>@keyframes\<close> itself is rewritten.
\<close>

theorem keyframe_rename_collision:
  "extractNestedCss
     ''@keyframes fade{from{opacity:0;}}@keyframes fade-in{from{opacity:0;}}animation-name:fade-in;''
     ''.s''
   = Inr (''.s{animation-name:s_s_fade-in;}'' @ [CHR 0x0A]
          @ ''@keyframes s_fade{'' @ [CHR 0x0A] @ ''  from{opacity:0;}'' @ [CHR 0x0A] @ ''}'' @ [CHR 0x0A]
          @ ''@keyframes s_s_fade-in{'' @ [CHR 0x0A] @ ''  from{opacity:0;}'' @ [CHR 0x0A] @ ''}'')
   \<and> extractNestedCss ''@keyframes frame{from{opacity:0;}}'' ''.s''
   = Inr (''@keys_frames s_frame{'' @ [CHR 0x0A] @ ''  from{opacity:0;}'' @ [CHR 0x0A] @ ''}'')"
  by code_simp

section \<open>Malformed input\<close>

text \<open>
  C8. After an unmatched closing brace the stack is empty, and the selector
  \<^verbatim>\<open>constructor\<close> alone is the key of the slot. The object of the slots inherits a
  member of that name, so no slot is created, and the declaration line that follows is
  pushed onto the \<^verbatim>\<open>cssLines\<close> of that member, which has none: the call throws.
\<close>

theorem flatten_throws_on_prototype_key:
  "extractNestedCss ''}constructor{color:red;}'' ''.s'' = Inl TypeError"
  by code_simp

text \<open>
  C10. A closing line met when the stack holds the scope selector alone empties the
  stack. The selector path of the empty stack is \<^verbatim>\<open>undefined\<close>, which prints as the
  text \<^verbatim>\<open>undefined\<close>: that text is the key of the slot that the scan selects, a new
  slot beside the slot of a scope selector that begins with a dot. Flattening
  \<^verbatim>\<open>}color:red;\<close> under \<^verbatim>\<open>.s\<close> returns \<^verbatim>\<open>undefined{color:red;}\<close>.
\<close>

theorem unmatched_close_pops_scope:
  "scanLine ''}'' \<lparr>narrowers = [topSelector], cssSlots = slots, slotKey = key\<rparr>
     = Inr \<lparr>narrowers = [], cssSlots = snd (prepareCssSlot [] slots), slotKey = ''undefined''\<rparr>
   \<and> resolveNarrowers [] = (None, [])
   \<and> pathText None = ''undefined''
   \<and> prepareCssSlot [] [(CHR ''.'' # scopeName, slot)]
     = (''undefined'',
        [(CHR ''.'' # scopeName, slot),
         (''undefined'', \<lparr>selectorPath = None, groupRuleSpec = [], cssLines = []\<rparr>)])
   \<and> extractNestedCss ''}color:red;'' ''.s'' = Inr ''undefined{color:red;}''"
proof (intro conjI)
  show r: "resolveNarrowers [] = (None, [])"
    by (simp add: resolveNarrowers_def combineSelectorPaths_def combineMediaQueries_def)
  show "scanLine ''}'' \<lparr>narrowers = [topSelector], cssSlots = slots, slotKey = key\<rparr>
     = Inr \<lparr>narrowers = [], cssSlots = snd (prepareCssSlot [] slots), slotKey = ''undefined''\<rparr>"
    by (simp add: scanLine_def endsWith_def prepareCssSlot_def r pathText_def Let_def)
  show "pathText None = ''undefined''" by (simp add: pathText_def)
  show "prepareCssSlot [] [(CHR ''.'' # scopeName, slot)]
     = (''undefined'',
        [(CHR ''.'' # scopeName, slot),
         (''undefined'', \<lparr>selectorPath = None, groupRuleSpec = [], cssLines = []\<rparr>)])"
    by (simp add: prepareCssSlot_def r pathText_def getProperty_def objectPrototypeKeys_def
        setOwnProperty_def Let_def)
  show "extractNestedCss ''}color:red;'' ''.s'' = Inr ''undefined{color:red;}''"
    by code_simp
qed

section \<open>Merged conditions\<close>

lemma firstOccurrences_set:
  "set a = set b \<Longrightarrow> firstOccurrences a xs = firstOccurrences b xs"
proof (induction xs arbitrary: a b)
  case Nil
  show ?case by simp
next
  case (Cons x xs)
  from Cons.prems have "set (x # a) = set (x # b)" by simp
  then have "firstOccurrences (x # a) xs = firstOccurrences (x # b) xs"
    by (rule Cons.IH)
  moreover have "firstOccurrences a xs = firstOccurrences b xs"
    using Cons.prems by (rule Cons.IH)
  ultimately show ?case using Cons.prems by simp
qed

lemma indexOf_append_here:
  "indexOf (pre @ x # rest) x = length pre \<longleftrightarrow> x \<notin> set pre"
proof (induction pre)
  case Nil
  show ?case by simp
next
  case (Cons p pre)
  show ?case
  proof (cases "p = x")
    case True
    then show ?thesis by simp
  next
    case False
    with Cons.IH show ?thesis by simp
  qed
qed

lemma unique_from:
  "map fst (filter (\<lambda>(it, index). indexOf (pre @ xs) it = index)
              (zip xs [length pre ..< length pre + length xs]))
     = firstOccurrences pre xs"
proof (induction xs arbitrary: pre)
  case Nil
  show ?case by simp
next
  case (Cons x xs)
  have range: "[length pre ..< length pre + length (x # xs)]
                 = length pre # [length (pre @ [x]) ..< length (pre @ [x]) + length xs]"
    by (simp add: upt_rec)
  have ih: "map fst (filter (\<lambda>(it, index). indexOf ((pre @ [x]) @ xs) it = index)
              (zip xs [length (pre @ [x]) ..< length (pre @ [x]) + length xs]))
            = firstOccurrences (pre @ [x]) xs"
    by (rule Cons.IH)
  have same: "firstOccurrences (pre @ [x]) xs = firstOccurrences (x # pre) xs"
    by (rule firstOccurrences_set) simp
  show ?case
  proof (cases "x \<in> set pre")
    case True
    then have "firstOccurrences (x # pre) xs = firstOccurrences pre xs"
      by (intro firstOccurrences_set) auto
    with True ih same show ?thesis
      unfolding range by (simp add: indexOf_append_here)
  next
    case False
    with ih same show ?thesis
      unfolding range by (simp add: indexOf_append_here)
  qed
qed

lemma uniqueArrayItems_firstOccurrences:
  "uniqueArrayItems items = firstOccurrences [] items"
  using unique_from [of "[]" items] by (simp add: uniqueArrayItems_def)


lemma stripGroupKeyword_spec:
  "isGroupKeyword kw \<Longrightarrow> stripGroupKeyword (groupSpec (kw, cond)) = cond"
  by (auto simp: isGroupKeyword_def groupSpec_def stripGroupKeyword_def startsWith_def isSpace_def)

lemma head_of_spec:
  "isGroupKeyword kw \<Longrightarrow> hd (split '' '' (groupSpec (kw, cond))) = kw"
  by (auto simp: isGroupKeyword_def groupSpec_def split_def startsWith_def)

lemma conditions_of_specs:
  "list_all (\<lambda>p. isGroupKeyword (fst p)) ps \<Longrightarrow>
   concat (map (\<lambda>mq. map trim (split ''and'' (stripGroupKeyword mq))) (map groupSpec ps))
     = concat (map (\<lambda>p. map trim (split ''and'' (snd p))) ps)"
proof (induction ps)
  case Nil
  show ?case by simp
next
  case (Cons p ps)
  obtain kw cond where p: "p = (kw, cond)" by (cases p)
  from Cons.prems p have "isGroupKeyword kw" by simp
  then have "stripGroupKeyword (groupSpec p) = snd p"
    unfolding p by (simp add: stripGroupKeyword_spec)
  moreover from Cons have "concat (map (\<lambda>mq. map trim (split ''and'' (stripGroupKeyword mq))) (map groupSpec ps))
     = concat (map (\<lambda>p. map trim (split ''and'' (snd p))) ps)" by simp
  ultimately show ?case by simp
qed

lemma merge_example:
  "combineMediaQueries [''@media (min-width:600px) and (color)'', ''@media (color) and (min-width:600px)'']
     = ''@media (min-width:600px) and (color)''"
  by code_simp

text \<open>
  What the merge computes for specs made of a keyword, one space and a condition text:
  the keyword of the first spec, then the pieces of the condition texts, cut at every
  occurrence of the letters \<^verbatim>\<open>and\<close> and trimmed, in the order of their first
  occurrence.
\<close>

lemma combineMediaQueries_pieces:
  assumes wf: "list_all (\<lambda>p. isGroupKeyword (fst p)) (p # ps)"
  shows "combineMediaQueries (map groupSpec (p # ps))
        = fst p @ '' '' @ join '' and ''
            (firstOccurrences [] (concat (map (\<lambda>q. map trim (split ''and'' (snd q))) (p # ps))))"
proof -
  obtain kw cond where p: "p = (kw, cond)" by (cases p)
  from wf p have kw: "isGroupKeyword kw" by simp
  have head: "hd (split '' '' (hd (map groupSpec (p # ps)))) = fst p"
    using kw unfolding p by (simp add: head_of_spec)
  have parts: "concat (map (\<lambda>mq. map trim (split ''and'' (stripGroupKeyword mq))) (map groupSpec (p # ps)))
     = concat (map (\<lambda>q. map trim (split ''and'' (snd q))) (p # ps))"
    using wf by (rule conditions_of_specs)
  have "combineMediaQueries (map groupSpec (p # ps))
     = hd (split '' '' (hd (map groupSpec (p # ps)))) @ '' '' @ join '' and ''
         (uniqueArrayItems
            (concat (map (\<lambda>mq. map trim (split ''and'' (stripGroupKeyword mq))) (map groupSpec (p # ps)))))"
    by (simp add: combineMediaQueries_def Let_def)
  then show ?thesis
    by (simp only: head parts uniqueArrayItems_firstOccurrences)
qed

text \<open>
  C4. The condition text is cut at every occurrence of the letters \<^verbatim>\<open>and\<close>, also
  inside a word, and not at the token \<^verbatim>\<open>and\<close> between two conditions: the one
  condition of \<^verbatim>\<open>@media (orientation:landscape)\<close> comes out as the two pieces
  \<^verbatim>\<open>(orientation:l\<close> and \<^verbatim>\<open>scape)\<close>, and the rule flattened under \<^verbatim>\<open>.s\<close> is
  wrapped in \<^verbatim>\<open>@media (orientation:l and scape)\<close>. The keyword is stripped only
  before white space and found again as the text before the first space: the spec
  \<^verbatim>\<open>@media(min-width:600px)\<close>, which has neither, comes out twice.
\<close>

theorem combineMediaQueries_cuts_inside_words:
  "combineMediaQueries [''@media (orientation:landscape)''] = ''@media (orientation:l and scape)''
   \<and> extractNestedCss ''@media (orientation:landscape){color:red;}'' ''.s''
     = Inr (''@media (orientation:l and scape){'' @ [CHR 0x0A] @ ''  .s{color:red;}'' @ [CHR 0x0A] @ ''}'')
   \<and> combineMediaQueries [''@media(min-width:600px)'']
     = ''@media(min-width:600px) @media(min-width:600px)''"
  by code_simp

section \<open>Key resolution\<close>

lemma findIndex_first:
  "list_all (\<lambda>x. \<not> p x) outer \<Longrightarrow> p k \<Longrightarrow> findIndex p (outer @ k # inner) = Some (length outer)"
  by (induction outer) simp_all

lemma findIndex_none:
  "list_all (\<lambda>x. \<not> p x) xs \<Longrightarrow> findIndex p xs = None"
  by (induction xs) simp_all

text \<open>
  C5. When \<open>k\<close> is the first narrower of the stack that begins with
  \<^verbatim>\<open>@keyframes\<close>, the group rule spec is \<open>k\<close> itself and the selector path is
  composed of the narrowers after \<open>k\<close> alone: the narrowers before it, selectors or
  conditional groups, play no part. The conditional groups are merged only when no
  narrower begins with \<^verbatim>\<open>@keyframes\<close>.
\<close>

theorem resolveNarrowers_keyframes:
  "(list_all (\<lambda>it. \<not> startsWith it ''@keyframes'') outer \<and> startsWith k ''@keyframes'' \<longrightarrow>
      resolveNarrowers (outer @ k # inner) = (combineSelectorPaths inner, k))
   \<and> (list_all (\<lambda>it. \<not> startsWith it ''@keyframes'') ns \<longrightarrow>
      resolveNarrowers ns
        = (combineSelectorPaths (filter (\<lambda>it. \<not> isConditionalGroup it) ns),
           combineMediaQueries (filter isConditionalGroup ns)))"
proof (intro conjI impI)
  assume a: "list_all (\<lambda>it. \<not> startsWith it ''@keyframes'') outer \<and> startsWith k ''@keyframes''"
  then have "findIndex (\<lambda>it. startsWith it ''@keyframes'') (outer @ k # inner) = Some (length outer)"
    by (intro findIndex_first) simp_all
  then show "resolveNarrowers (outer @ k # inner) = (combineSelectorPaths inner, k)"
    by (simp add: resolveNarrowers_def)
next
  assume "list_all (\<lambda>it. \<not> startsWith it ''@keyframes'') ns"
  then have "findIndex (\<lambda>it. startsWith it ''@keyframes'') ns = None"
    by (intro findIndex_none) simp
  then show "resolveNarrowers ns
        = (combineSelectorPaths (filter (\<lambda>it. \<not> isConditionalGroup it) ns),
           combineMediaQueries (filter isConditionalGroup ns))"
    by (simp add: resolveNarrowers_def)
qed

theorem resolveNarrowers_keyframes_witness:
  "(list_all (\<lambda>it. \<not> startsWith it ''@keyframes'') [''.s'', ''@media (color)'', ''.card''] \<and> startsWith ''@keyframes spin'' ''@keyframes'')
   \<and> resolveNarrowers ([''.s'', ''@media (color)'', ''.card''] @ ''@keyframes spin'' # [''50%''])
        = (Some ''50%'', ''@keyframes spin'')
   \<and> resolveNarrowers [''.s'', ''@media (color)'', ''.card'']
        = (Some ''.s .card'', ''@media (color)'')"
proof -
  have a: "list_all (\<lambda>it. \<not> startsWith it ''@keyframes'') [''.s'', ''@media (color)'', ''.card''] \<and> startsWith ''@keyframes spin'' ''@keyframes''"
    by (simp add: startsWith_def)
  have c1: "combineSelectorPaths [''50%''] = Some ''50%''"
    by (simp add: combineSelectorPaths_def)
  have c2: "(combineSelectorPaths (filter (\<lambda>it. \<not> isConditionalGroup it) [''.s'', ''@media (color)'', ''.card'']),
           combineMediaQueries (filter isConditionalGroup [''.s'', ''@media (color)'', ''.card'']))
       = (Some ''.s .card'', ''@media (color)'')"
    by code_simp
  note t = resolveNarrowers_keyframes [of "[''.s'', ''@media (color)'', ''.card'']" "''@keyframes spin''" "[''50%'']"
        "[''.s'', ''@media (color)'', ''.card'']"]
  from t a have "resolveNarrowers ([''.s'', ''@media (color)'', ''.card''] @ ''@keyframes spin'' # [''50%''])
        = (combineSelectorPaths [''50%''], ''@keyframes spin'')"
    by blast
  moreover from t a have "resolveNarrowers [''.s'', ''@media (color)'', ''.card'']
        = (combineSelectorPaths (filter (\<lambda>it. \<not> isConditionalGroup it) [''.s'', ''@media (color)'', ''.card'']),
           combineMediaQueries (filter isConditionalGroup [''.s'', ''@media (color)'', ''.card'']))"
    by blast
  ultimately show ?thesis using a by (simp only: c1 c2) 
qed

section \<open>Pruning\<close>












section \<open>Interpolated values\<close>





section \<open>Flat input\<close>































end
